theory Spec2Isabelle
  imports Complex_Main
begin

section \<open>Numbers\<close>

text \<open>
  The program computes with Python floats. They are idealised as real numbers here:
  comparisons, negation, absolute value, products and sums are the exact ones, and NaN
  and the infinities are not values of the model.
\<close>

section \<open>Risk management (src/strategies/risk_management.py)\<close>

text \<open>
  A configuration dictionary maps option names to numbers. \<open>RiskManager.__init__\<close>
  reads four options with \<open>config.get(key, default)\<close> and stores what it finds.
\<close>

type_synonym config = "string \<rightharpoonup> real"

definition config_get :: "config \<Rightarrow> string \<Rightarrow> real \<Rightarrow> real" where
  "config_get config key dflt = (case config key of None \<Rightarrow> dflt | Some v \<Rightarrow> v)"

record RiskManager =
  max_position_size :: real
  position_size :: real
  stop_loss_z :: real
  max_correlation_deviation :: real

definition RiskManager_init :: "config \<Rightarrow> RiskManager" where
  "RiskManager_init config =
     \<lparr> max_position_size = config_get config ''max_position'' (2 / 10),
       position_size = config_get config ''position_size'' (1 / 10),
       stop_loss_z = config_get config ''stop_loss_z'' 3,
       max_correlation_deviation = config_get config ''max_correlation_deviation'' (2 / 10) \<rparr>"

definition calculate_position_size :: "RiskManager \<Rightarrow> real \<Rightarrow> real option \<Rightarrow> real" where
  "calculate_position_size rm account_balance base_position_size =
     (let size = (case base_position_size of Some b \<Rightarrow> b | None \<Rightarrow> position_size rm);
          position_amount = account_balance * size;
          max_amount = account_balance * max_position_size rm
      in min position_amount max_amount)"

definition check_stop_loss :: "RiskManager \<Rightarrow> real \<Rightarrow> real \<Rightarrow> bool" where
  "check_stop_loss rm current_zscore entry_zscore =
     (if entry_zscore > 0 then
        (if current_zscore > stop_loss_z rm then True else False)
      else if entry_zscore < 0 then
        (if current_zscore < - stop_loss_z rm then True else False)
      else False)"

section \<open>The pairs-trading signal engine (src/strategies/pairs_trading.py)\<close>

text \<open>
  \<open>pair_statistics\<close> is the dictionary returned by
  \<open>DataProcessor.calculate_pair_statistics\<close>; the numerical routines that fill it
  (correlation, regression, cointegration test) are not modelled, their results are inputs.
  \<open>None\<close> stands for the empty dictionary it returns on too little data.
\<close>

record pair_statistics =
  st_correlation :: real
  st_hedge_ratio :: real
  st_spread_mean :: real
  st_spread_std :: real
  st_current_zscore :: real
  st_is_cointegrated :: bool

text \<open>The entry \<open>'position'\<close> of a pair state, written by \<open>update_position\<close>.\<close>

record position_ref =
  pr_quantity1 :: real
  pr_quantity2 :: real
  pr_entry_zscore :: real

text \<open>
  One value of \<open>self.pair_states\<close>. \<open>ps_stats = None\<close> is a state dictionary that
  has no statistics keys yet (one created by \<open>update_position\<close>);
  \<open>ps_position = None\<close> is a missing or \<open>None\<close> entry \<open>'position'\<close>, which
  \<open>state.get('position')\<close> does not tell apart.
\<close>

record pair_state =
  ps_stats :: "pair_statistics option"
  ps_position :: "position_ref option"

record PairsTradingStrategy =
  lookback_period :: nat
  z_entry_threshold :: real
  z_exit_threshold :: real
  correlation_threshold :: real
  risk_manager :: RiskManager
  pair_states :: "string \<rightharpoonup> pair_state"

definition PairsTradingStrategy_init ::
  "nat \<Rightarrow> config \<Rightarrow> PairsTradingStrategy" where
  "PairsTradingStrategy_init lookback strategy_config =
     \<lparr> lookback_period = lookback,
       z_entry_threshold = config_get strategy_config ''z_entry_threshold'' 2,
       z_exit_threshold = config_get strategy_config ''z_exit_threshold'' (5 / 10),
       correlation_threshold = config_get strategy_config ''correlation_threshold'' (8 / 10),
       risk_manager = RiskManager_init strategy_config,
       pair_states = Map.empty \<rparr>"

text \<open>
  \<open>_update_pair_state\<close>: a pair seen for the first time gets \<open>{'position': None}\<close>;
  then the six statistics are overwritten, each with its default when the statistics
  dictionary lacks the key (\<open>stats.get(key, default)\<close>).
\<close>

definition stats_with_defaults :: "pair_statistics option \<Rightarrow> pair_statistics" where
  "stats_with_defaults stats =
     (case stats of
        Some s \<Rightarrow> s
      | None \<Rightarrow> \<lparr> st_correlation = 0, st_hedge_ratio = 1, st_spread_mean = 0,
                  st_spread_std = 1, st_current_zscore = 0, st_is_cointegrated = False \<rparr>)"

definition update_pair_state ::
  "PairsTradingStrategy \<Rightarrow> string \<Rightarrow> pair_statistics option \<Rightarrow> PairsTradingStrategy" where
  "update_pair_state strat pair_name stats =
     (let old = (case pair_states strat pair_name of
                   None \<Rightarrow> \<lparr> ps_stats = None, ps_position = None \<rparr>
                 | Some st \<Rightarrow> st)
      in strat \<lparr> pair_states :=
           (pair_states strat)(pair_name \<mapsto> old \<lparr> ps_stats := Some (stats_with_defaults stats) \<rparr>) \<rparr>)"

datatype signal_type = Hold | Sell_Spread | Buy_Spread | Close

datatype signal_error = Data_Invalid_Error | Missing_Price_Data_Error | Alignment_Failed_Error

datatype signal_metadata =
    Meta_Error signal_error
  | Meta_Low_Correlation real
  | Meta_Stats real real bool real real

record trade_signal =
  signal :: signal_type
  sg_quantity1 :: real
  sg_quantity2 :: real
  sg_zscore :: real
  metadata :: signal_metadata
  sg_asset1 :: "string option"
  sg_asset2 :: "string option"

text \<open>
  What the data preparation at the head of \<open>calculate_signals\<close> ends in:
  \<open>validate_data\<close> fails, a price frame is missing, the aligned frame is empty, or the
  statistics of the most recent \<open>lookback_period\<close> prices are computed. The metadata
  written by \<open>calculate_signals\<close> never has the keys \<open>'asset1'\<close> and
  \<open>'asset2'\<close>, so \<open>sg_asset1\<close> and \<open>sg_asset2\<close> are \<open>None\<close>.
\<close>

datatype market_data =
    Data_Invalid
  | Price_Data_Missing
  | Alignment_Failed
  | Recent_Prices "pair_statistics option"

definition hold_signal :: "real \<Rightarrow> signal_metadata \<Rightarrow> trade_signal" where
  "hold_signal z m =
     \<lparr> signal = Hold, sg_quantity1 = 0, sg_quantity2 = 0, sg_zscore = z, metadata = m,
       sg_asset1 = None, sg_asset2 = None \<rparr>"

text \<open>
  The part of \<open>calculate_signals\<close> after \<open>_update_pair_state\<close>: the correlation
  check, then the entry rules without a position and the exit rules with one.
\<close>

definition decide_signal :: "PairsTradingStrategy \<Rightarrow> pair_statistics \<Rightarrow> position_ref option \<Rightarrow> trade_signal" where
  "decide_signal strat st current_position =
     (let current_zscore = st_current_zscore st;
          correlation = st_correlation st;
          is_cointegrated = st_is_cointegrated st
      in if correlation < correlation_threshold strat then
           hold_signal current_zscore (Meta_Low_Correlation correlation)
         else
           (let (sig, quantity1, quantity2) =
              (case current_position of
                 None \<Rightarrow>
                   if current_zscore > z_entry_threshold strat then
                     (Sell_Spread, 1, - st_hedge_ratio st)
                   else if current_zscore < - z_entry_threshold strat then
                     (Buy_Spread, - 1, st_hedge_ratio st)
                   else (Hold, 0, 0)
               | Some pos \<Rightarrow>
                   (let entry_zscore = pr_entry_zscore pos
                    in if check_stop_loss (risk_manager strat) current_zscore entry_zscore then
                         (Close, - pr_quantity1 pos, - pr_quantity2 pos)
                       else if \<bar>current_zscore\<bar> < z_exit_threshold strat then
                         (Close, - pr_quantity1 pos, - pr_quantity2 pos)
                       else (Hold, 0, 0)))
            in \<lparr> signal = sig, sg_quantity1 = quantity1, sg_quantity2 = quantity2,
                 sg_zscore = current_zscore,
                 metadata = Meta_Stats correlation (st_hedge_ratio st) is_cointegrated
                              (st_spread_mean st) (st_spread_std st),
                 sg_asset1 = None, sg_asset2 = None \<rparr>))"

definition calculate_signals ::
  "PairsTradingStrategy \<Rightarrow> market_data \<Rightarrow> string \<Rightarrow> trade_signal \<times> PairsTradingStrategy" where
  "calculate_signals strat data pair_name =
     (case data of
        Data_Invalid \<Rightarrow> (hold_signal 0 (Meta_Error Data_Invalid_Error), strat)
      | Price_Data_Missing \<Rightarrow> (hold_signal 0 (Meta_Error Missing_Price_Data_Error), strat)
      | Alignment_Failed \<Rightarrow> (hold_signal 0 (Meta_Error Alignment_Failed_Error), strat)
      | Recent_Prices stats \<Rightarrow>
          (let strat' = update_pair_state strat pair_name stats;
               st = stats_with_defaults stats;
               current_position =
                 (case pair_states strat' pair_name of
                    None \<Rightarrow> None
                  | Some state \<Rightarrow> ps_position state)
           in (decide_signal strat' st current_position, strat')))"

text \<open>\<open>update_position\<close>, the only writer of the entry \<open>'position'\<close>.\<close>

definition update_position ::
  "PairsTradingStrategy \<Rightarrow> string \<Rightarrow> signal_type \<Rightarrow> real \<Rightarrow> real \<Rightarrow> real \<Rightarrow> PairsTradingStrategy" where
  "update_position strat pair_name sig quantity1 quantity2 zscore =
     (let old = (case pair_states strat pair_name of
                   None \<Rightarrow> \<lparr> ps_stats = None, ps_position = None \<rparr>
                 | Some st \<Rightarrow> st);
          new = (if sig = Buy_Spread \<or> sig = Sell_Spread then
                   old \<lparr> ps_position := Some \<lparr> pr_quantity1 = quantity1, pr_quantity2 = quantity2,
                                               pr_entry_zscore = zscore \<rparr> \<rparr>
                 else if sig = Close then old \<lparr> ps_position := None \<rparr>
                 else old)
      in strat \<lparr> pair_states := (pair_states strat)(pair_name \<mapsto> new) \<rparr>)"

text \<open>
  The stored position of a pair: \<open>None\<close> is the state FLAT, \<open>Some pos\<close> an open
  spread position (\<open>LONG_SPREAD\<close> or \<open>SHORT_SPREAD\<close>; the program stores no more than the
  quantities and the entry z-score).
\<close>

definition position_of :: "PairsTradingStrategy \<Rightarrow> string \<Rightarrow> position_ref option" where
  "position_of strat pair_name =
     (case pair_states strat pair_name of None \<Rightarrow> None | Some state \<Rightarrow> ps_position state)"

section \<open>The position ledger (src/trading/position_manager.py)\<close>

text \<open>
  Timestamps are milliseconds read from the clock (\<open>get_current_timestamp\<close>); the
  reading is the parameter \<open>now\<close> of every operation that takes one.
\<close>

record Position =
  po_pair_name :: string
  po_asset1 :: string
  po_asset2 :: string
  po_quantity1 :: real
  po_quantity2 :: real
  po_entry_zscore :: real
  po_entry_price1 :: real
  po_entry_price2 :: real
  po_entry_timestamp :: int
  po_exit_timestamp :: "int option"
  po_exit_price1 :: "real option"
  po_exit_price2 :: "real option"
  pnl :: real
  is_closed :: bool

definition Position_init ::
  "string \<Rightarrow> string \<Rightarrow> string \<Rightarrow> real \<Rightarrow> real \<Rightarrow> real \<Rightarrow> real \<Rightarrow> real \<Rightarrow> int \<Rightarrow> Position" where
  "Position_init pair_name asset1 asset2 quantity1 quantity2 entry_zscore
                 entry_price1 entry_price2 now =
     \<lparr> po_pair_name = pair_name, po_asset1 = asset1, po_asset2 = asset2,
       po_quantity1 = quantity1, po_quantity2 = quantity2, po_entry_zscore = entry_zscore,
       po_entry_price1 = entry_price1, po_entry_price2 = entry_price2,
       po_entry_timestamp = now, po_exit_timestamp = None,
       po_exit_price1 = None, po_exit_price2 = None, pnl = 0, is_closed = False \<rparr>"

definition close :: "Position \<Rightarrow> real \<Rightarrow> real \<Rightarrow> int \<Rightarrow> Position" where
  "close p exit_price1 exit_price2 now =
     (let pnl1 = (exit_price1 - po_entry_price1 p) * po_quantity1 p;
          pnl2 = (exit_price2 - po_entry_price2 p) * po_quantity2 p
      in p \<lparr> po_exit_price1 := Some exit_price1, po_exit_price2 := Some exit_price2,
             po_exit_timestamp := Some now, pnl := pnl1 + pnl2, is_closed := True \<rparr>)"

record PositionManager =
  positions :: "string \<rightharpoonup> Position"

definition PositionManager_init :: PositionManager where
  "PositionManager_init = \<lparr> positions = Map.empty \<rparr>"

definition open_position ::
  "PositionManager \<Rightarrow> string \<Rightarrow> string \<Rightarrow> string \<Rightarrow> real \<Rightarrow> real \<Rightarrow> real \<Rightarrow> real \<Rightarrow> real \<Rightarrow> int
     \<Rightarrow> Position \<times> PositionManager" where
  "open_position pm pair_name asset1 asset2 quantity1 quantity2 entry_zscore
                 entry_price1 entry_price2 now =
     (case positions pm pair_name of
        Some existing \<Rightarrow>
          if \<not> is_closed existing then (existing, pm)
          else
            (let position = Position_init pair_name asset1 asset2 quantity1 quantity2
                              entry_zscore entry_price1 entry_price2 now
             in (position, pm \<lparr> positions := (positions pm)(pair_name \<mapsto> position) \<rparr>))
      | None \<Rightarrow>
          (let position = Position_init pair_name asset1 asset2 quantity1 quantity2
                            entry_zscore entry_price1 entry_price2 now
           in (position, pm \<lparr> positions := (positions pm)(pair_name \<mapsto> position) \<rparr>)))"

text \<open>
  \<open>close_position\<close> closes the object held by the dictionary in place; the model
  writes the closed position back under the same key.
\<close>

definition close_position ::
  "PositionManager \<Rightarrow> string \<Rightarrow> real \<Rightarrow> real \<Rightarrow> int \<Rightarrow> Position option \<times> PositionManager" where
  "close_position pm pair_name exit_price1 exit_price2 now =
     (case positions pm pair_name of
        None \<Rightarrow> (None, pm)
      | Some position \<Rightarrow>
          if is_closed position then (Some position, pm)
          else
            (let closed = close position exit_price1 exit_price2 now
             in (Some closed, pm \<lparr> positions := (positions pm)(pair_name \<mapsto> closed) \<rparr>)))"

text \<open>
  The ledgers that the two operations can produce from the empty one, each operation
  with any arguments.
\<close>

inductive reachable_ledger :: "PositionManager \<Rightarrow> bool" where
  ledger_init: "reachable_ledger PositionManager_init"
| ledger_open:
    "reachable_ledger pm \<Longrightarrow>
     reachable_ledger (snd (open_position pm pair_name asset1 asset2 quantity1 quantity2
                              entry_zscore entry_price1 entry_price2 now))"
| ledger_close:
    "reachable_ledger pm \<Longrightarrow>
     reachable_ledger (snd (close_position pm pair_name exit_price1 exit_price2 now))"

section \<open>The order ledger (src/trading/order_manager.py)\<close>

datatype OrderStatus = PENDING | SUBMITTED | FILLED | PARTIALLY_FILLED | CANCELLED | REJECTED

text \<open>
  An order id is the text \<open>order_<counter>_<timestamp>\<close>; the model keeps the two
  numbers it is printed from.
\<close>

datatype order_id = Order_Id nat int

record Order =
  or_order_id :: order_id
  or_pair_name :: string
  or_asset1 :: string
  or_asset2 :: string
  or_side1 :: string
  or_side2 :: string
  or_quantity1 :: real
  or_quantity2 :: real
  or_price1 :: "real option"
  or_price2 :: "real option"
  or_order_type :: string
  status :: OrderStatus
  or_timestamp :: int
  exchange_order_id1 :: "string option"
  exchange_order_id2 :: "string option"
  filled_quantity1 :: real
  filled_quantity2 :: real
  filled_price1 :: real
  filled_price2 :: real

definition Order_init ::
  "order_id \<Rightarrow> string \<Rightarrow> string \<Rightarrow> string \<Rightarrow> string \<Rightarrow> string \<Rightarrow> real \<Rightarrow> real
     \<Rightarrow> real option \<Rightarrow> real option \<Rightarrow> string \<Rightarrow> int \<Rightarrow> Order" where
  "Order_init oid pair_name asset1 asset2 side1 side2 quantity1 quantity2 price1 price2
              order_type now =
     \<lparr> or_order_id = oid, or_pair_name = pair_name, or_asset1 = asset1, or_asset2 = asset2,
       or_side1 = side1, or_side2 = side2, or_quantity1 = quantity1, or_quantity2 = quantity2,
       or_price1 = price1, or_price2 = price2, or_order_type = order_type,
       status = PENDING, or_timestamp = now,
       exchange_order_id1 = None, exchange_order_id2 = None,
       filled_quantity1 = 0, filled_quantity2 = 0, filled_price1 = 0, filled_price2 = 0 \<rparr>"

definition update_status :: "Order \<Rightarrow> OrderStatus \<Rightarrow> Order" where
  "update_status ord new_status = ord \<lparr> status := new_status \<rparr>"

record OrderManager =
  orders :: "order_id \<rightharpoonup> Order"
  order_counter :: nat

definition OrderManager_init :: OrderManager where
  "OrderManager_init = \<lparr> orders = Map.empty, order_counter = 0 \<rparr>"

definition create_order ::
  "OrderManager \<Rightarrow> string \<Rightarrow> string \<Rightarrow> string \<Rightarrow> string \<Rightarrow> string \<Rightarrow> real \<Rightarrow> real
     \<Rightarrow> real option \<Rightarrow> real option \<Rightarrow> string \<Rightarrow> int \<Rightarrow> Order \<times> OrderManager" where
  "create_order om pair_name asset1 asset2 side1 side2 quantity1 quantity2 price1 price2
                order_type now =
     (let counter = order_counter om + 1;
          oid = Order_Id counter now;
          ord = Order_init oid pair_name asset1 asset2 side1 side2 quantity1 quantity2
                  price1 price2 order_type now
      in (ord, om \<lparr> orders := (orders om)(oid \<mapsto> ord), order_counter := counter \<rparr>))"

section \<open>The execution engine (src/trading/execution_engine.py)\<close>

text \<open>
  The exchange is outside the program. \<open>ExchangeInterface.get_ticker\<close> and
  \<open>place_market_order\<close> catch every exception of the transport and return
  \<open>None\<close> then. A ticker is modelled by its entry \<open>'last'\<close>. A market order's
  answer is the dictionary of the exchange, of which the engine reads three keys
  (\<open>None\<close> for a key that is absent; an entry whose value is Python's \<open>None\<close>
  is not modelled); \<open>None\<close> as an answer also stands for an empty
  dictionary, which the engine's test \<open>if order1_result\<close> treats like \<open>None\<close>.
  The answer to an order may depend on every order placed before: \<open>ex_reply\<close> takes
  the log of the earlier calls, and \<open>ex_calls\<close> is that log.
\<close>

record exchange_order =
  xo_id :: "string option"
  xo_filled :: "real option"
  xo_price :: "real option"

type_synonym market_call = "string \<times> string \<times> real"

record Exchange =
  ex_ticker :: "string \<Rightarrow> real option"
  ex_reply :: "market_call list \<Rightarrow> market_call \<Rightarrow> exchange_order option"
  ex_calls :: "market_call list"

definition get_ticker :: "Exchange \<Rightarrow> string \<Rightarrow> real option" where
  "get_ticker ex symbol = ex_ticker ex symbol"

definition place_market_order ::
  "Exchange \<Rightarrow> string \<Rightarrow> string \<Rightarrow> real \<Rightarrow> exchange_order option \<times> Exchange" where
  "place_market_order ex symbol side amount =
     (ex_reply ex (ex_calls ex) (symbol, side, amount),
      ex \<lparr> ex_calls := ex_calls ex @ [(symbol, side, amount)] \<rparr>)"

definition safe_divide :: "real \<Rightarrow> real \<Rightarrow> real \<Rightarrow> real" where
  "safe_divide numerator denominator dflt =
     (if denominator = 0 then dflt else numerator / denominator)"

record ExecutionEngine =
  ee_exchange :: Exchange
  ee_order_manager :: OrderManager
  ee_position_manager :: PositionManager
  ee_risk_manager :: RiskManager

text \<open>The result dictionary of \<open>execute_signal\<close>: keys and values, in the source's order.\<close>

datatype pyval = PBool bool | PNum real | PStr string | POrder_Id order_id

type_synonym payload = "(string \<times> pyval) list"

text \<open>The scaling of both quantities to the approved position size (opening signals only).\<close>

definition adjust_quantities ::
  "RiskManager \<Rightarrow> signal_type \<Rightarrow> real \<Rightarrow> real \<Rightarrow> real \<Rightarrow> real \<Rightarrow> real \<Rightarrow> real \<times> real" where
  "adjust_quantities rm signal_type quantity1 quantity2 price1 price2 account_balance =
     (if signal_type = Buy_Spread \<or> signal_type = Sell_Spread then
        (let cost1 = \<bar>quantity1\<bar> * price1;
             cost2 = \<bar>quantity2\<bar> * price2;
             total_cost = cost1 + cost2;
             position_size = calculate_position_size rm account_balance None
         in if total_cost > position_size then
              (let scale = safe_divide position_size total_cost 0
               in (quantity1 * scale, quantity2 * scale))
            else (quantity1, quantity2))
      else (quantity1, quantity2))"

text \<open>What the engine copies from a leg's answer into the order, when there is an answer.\<close>

definition record_leg1 :: "Order \<Rightarrow> exchange_order option \<Rightarrow> real \<Rightarrow> real \<Rightarrow> Order" where
  "record_leg1 ord order1_result quantity1 price1 =
     (case order1_result of
        None \<Rightarrow> ord
      | Some r \<Rightarrow>
          ord \<lparr> exchange_order_id1 := xo_id r,
                filled_quantity1 := (case xo_filled r of Some f \<Rightarrow> f | None \<Rightarrow> \<bar>quantity1\<bar>),
                filled_price1 := (case xo_price r of Some p \<Rightarrow> p | None \<Rightarrow> price1) \<rparr>)"

definition record_leg2 :: "Order \<Rightarrow> exchange_order option \<Rightarrow> real \<Rightarrow> real \<Rightarrow> Order" where
  "record_leg2 ord order2_result quantity2 price2 =
     (case order2_result of
        None \<Rightarrow> ord
      | Some r \<Rightarrow>
          ord \<lparr> exchange_order_id2 := xo_id r,
                filled_quantity2 := (case xo_filled r of Some f \<Rightarrow> f | None \<Rightarrow> \<bar>quantity2\<bar>),
                filled_price2 := (case xo_price r of Some p \<Rightarrow> p | None \<Rightarrow> price2) \<rparr>)"

definition success_payload :: "Order \<Rightarrow> payload" where
  "success_payload ord =
     [(''success'', PBool True),
      (''order_id'', POrder_Id (or_order_id ord)),
      (''filled_quantity1'', PNum (filled_quantity1 ord)),
      (''filled_quantity2'', PNum (filled_quantity2 ord)),
      (''filled_price1'', PNum (filled_price1 ord)),
      (''filled_price2'', PNum (filled_price2 ord))]"

text \<open>
  The failure dictionary. Its \<open>'error'\<close> is a fixed sentence of the source (in
  Chinese there; it says that the order's execution failed).
\<close>

definition failure_payload :: "Order \<Rightarrow> payload" where
  "failure_payload ord =
     [(''success'', PBool False),
      (''order_id'', POrder_Id (or_order_id ord)),
      (''error'', PStr ''order execution failed'')]"

text \<open>
  The second half of \<open>execute_signal\<close>, from \<open>create_order\<close> on: the order is
  created, leg 1 and then leg 2 are placed, and the ledgers are updated. The order object
  is the one stored in the order ledger, so what the engine writes into it is seen there:
  the model stores the final order under its id. No statement of the \<open>try\<close> block
  raises on the values of this model (the exchange interface has caught the transport's
  exceptions), so the \<open>except\<close> branch has no counterpart here.
\<close>

definition submit_legs ::
  "ExecutionEngine \<Rightarrow> signal_type \<Rightarrow> string \<Rightarrow> string \<Rightarrow> string \<Rightarrow> real \<Rightarrow> real \<Rightarrow> real
     \<Rightarrow> real \<Rightarrow> real \<Rightarrow> string \<Rightarrow> string \<Rightarrow> int \<Rightarrow> payload option \<times> ExecutionEngine" where
  "submit_legs eng signal_type pair_name asset1 asset2 zscore price1 price2
               quantity1 quantity2 side1 side2 now =
     (let (order0, om) =
            create_order (ee_order_manager eng) pair_name asset1 asset2
              side1 side2 \<bar>quantity1\<bar> \<bar>quantity2\<bar> None None ''market'' now;
          (order1_result, ex1) =
            place_market_order (ee_exchange eng) asset1 side1 \<bar>quantity1\<bar>;
          order1 = record_leg1 order0 order1_result quantity1 price1;
          (order2_result, ex2) =
            place_market_order ex1 asset2 side2 \<bar>quantity2\<bar>;
          order2 = record_leg2 order1 order2_result quantity2 price2
      in if order1_result \<noteq> None \<and> order2_result \<noteq> None then
           (let order3 = update_status order2 FILLED;
                pm = (if signal_type = Buy_Spread \<or> signal_type = Sell_Spread then
                        snd (open_position (ee_position_manager eng) pair_name
                               asset1 asset2 quantity1 quantity2 zscore
                               (filled_price1 order3) (filled_price2 order3) now)
                      else if signal_type = Close then
                        snd (close_position (ee_position_manager eng) pair_name
                               (filled_price1 order3) (filled_price2 order3) now)
                      else ee_position_manager eng)
            in (Some (success_payload order3),
                eng \<lparr> ee_exchange := ex2,
                      ee_order_manager :=
                        om \<lparr> orders := (orders om)(or_order_id order3 \<mapsto> order3) \<rparr>,
                      ee_position_manager := pm \<rparr>))
         else
           (let order3 = update_status order2 REJECTED
            in (Some (failure_payload order3),
                eng \<lparr> ee_exchange := ex2,
                      ee_order_manager :=
                        om \<lparr> orders := (orders om)(or_order_id order3 \<mapsto> order3) \<rparr> \<rparr>)))"

text \<open>
  \<open>execute_signal\<close>: nothing is done for a hold signal or without both prices;
  otherwise the quantities are scaled, the sides follow their signs and the legs are
  submitted.
\<close>

definition execute_signal ::
  "ExecutionEngine \<Rightarrow> trade_signal \<Rightarrow> string \<Rightarrow> real \<Rightarrow> int \<Rightarrow> payload option \<times> ExecutionEngine" where
  "execute_signal eng sg pair_name account_balance now =
     (let signal_type = signal sg
      in if signal_type = Hold then (None, eng)
         else
           (let asset1 = (case sg_asset1 sg of Some a \<Rightarrow> a | None \<Rightarrow> ''asset1'');
                asset2 = (case sg_asset2 sg of Some a \<Rightarrow> a | None \<Rightarrow> ''asset2'');
                zscore = sg_zscore sg;
                ticker1 = get_ticker (ee_exchange eng) asset1;
                ticker2 = get_ticker (ee_exchange eng) asset2
            in case (ticker1, ticker2) of
                 (Some price1, Some price2) \<Rightarrow>
                   (let (quantity1, quantity2) =
                          adjust_quantities (ee_risk_manager eng) signal_type
                            (sg_quantity1 sg) (sg_quantity2 sg) price1 price2 account_balance;
                        side1 = (if quantity1 > 0 then ''buy'' else ''sell'');
                        side2 = (if quantity2 > 0 then ''buy'' else ''sell'')
                    in submit_legs eng signal_type pair_name asset1 asset2 zscore
                         price1 price2 quantity1 quantity2 side1 side2 now)
               | _ \<Rightarrow> (None, eng)))"

section \<open>The z-score (src/utils/math_utils.py, src/data/data_processor.py)\<close>

text \<open>
  Python and numpy operations that can go wrong return an error value here. A division
  reports a zero divisor as \<open>Zero_Division\<close> (numpy itself goes on with an infinity
  or NaN and a warning; the model stops there, so that a result \<open>Inr\<close> means that no
  division had a zero divisor). Indexing outside the array reports \<open>Index_Error\<close>.
  The series is an array of floats.
\<close>

datatype py_error = Zero_Division | Index_Error

definition div_checked :: "real \<Rightarrow> real \<Rightarrow> py_error + real" where
  "div_checked a b = (if b = 0 then Inl Zero_Division else Inr (a / b))"

text \<open>
  \<open>np.mean\<close> divides the sum by the number of elements, \<open>np.std\<close> is the square
  root of the mean of the squared distances from the mean. On an empty array the mean is
  the division of 0 by 0.
\<close>

definition np_mean :: "real list \<Rightarrow> py_error + real" where
  "np_mean xs = div_checked (sum_list xs) (real (length xs))"

definition np_std :: "real list \<Rightarrow> py_error + real" where
  "np_std xs =
     (case np_mean xs of
        Inl e \<Rightarrow> Inl e
      | Inr m \<Rightarrow>
          (case np_mean (map (\<lambda>x. \<bar>x - m\<bar> ^ 2) xs) of
             Inl e \<Rightarrow> Inl e
           | Inr v \<Rightarrow> Inr (sqrt v)))"

text \<open>Python's \<open>xs[i]\<close>, \<open>xs[i] = v\<close> and \<open>xs[a:b]\<close>, negative indices counting from the end.\<close>

definition py_index :: "nat \<Rightarrow> int \<Rightarrow> nat option" where
  "py_index n i =
     (if 0 \<le> i \<and> i < int n then Some (nat i)
      else if - int n \<le> i \<and> i < 0 then Some (nat (i + int n))
      else None)"

definition py_get :: "real list \<Rightarrow> int \<Rightarrow> py_error + real" where
  "py_get xs i =
     (case py_index (length xs) i of
        None \<Rightarrow> Inl Index_Error
      | Some k \<Rightarrow> Inr (xs ! k))"

definition py_set :: "real list \<Rightarrow> int \<Rightarrow> real \<Rightarrow> py_error + real list" where
  "py_set xs i v =
     (case py_index (length xs) i of
        None \<Rightarrow> Inl Index_Error
      | Some k \<Rightarrow> Inr (xs[k := v]))"

definition slice_bound :: "nat \<Rightarrow> int \<Rightarrow> nat" where
  "slice_bound n k = (if k < 0 then nat (max (k + int n) 0) else nat (min k (int n)))"

definition py_slice :: "real list \<Rightarrow> int \<Rightarrow> int \<Rightarrow> real list" where
  "py_slice xs a b =
     (let lo = slice_bound (length xs) a; hi = slice_bound (length xs) b
      in if lo < hi then take (hi - lo) (drop lo xs) else [])"

text \<open>One pass of the body of the rolling loop, at index \<open>i\<close>.\<close>

definition rolling_step :: "real list \<Rightarrow> int \<Rightarrow> real list \<Rightarrow> int \<Rightarrow> py_error + real list" where
  "rolling_step series window zscores i =
     (let window_data = py_slice series (i - window) i
      in case np_mean window_data of
           Inl e \<Rightarrow> Inl e
         | Inr mean \<Rightarrow>
             (case np_std window_data of
                Inl e \<Rightarrow> Inl e
              | Inr std \<Rightarrow>
                  if std = 0 then py_set zscores i 0
                  else
                    (case py_get series i of
                       Inl e \<Rightarrow> Inl e
                     | Inr x \<Rightarrow>
                         (case div_checked (x - mean) std of
                            Inl e \<Rightarrow> Inl e
                          | Inr z \<Rightarrow> py_set zscores i z))))"

fun rolling_loop :: "real list \<Rightarrow> int \<Rightarrow> int list \<Rightarrow> real list \<Rightarrow> py_error + real list" where
  "rolling_loop series window [] zscores = Inr zscores"
| "rolling_loop series window (i # rest) zscores =
     (case rolling_step series window zscores i of
        Inl e \<Rightarrow> Inl e
      | Inr zscores' \<Rightarrow> rolling_loop series window rest zscores')"

text \<open>The elementwise \<open>(series - mean) / std\<close> of the branch without a window.\<close>

fun standardize :: "real list \<Rightarrow> real \<Rightarrow> real \<Rightarrow> py_error + real list" where
  "standardize [] mean std = Inr []"
| "standardize (x # xs) mean std =
     (case div_checked (x - mean) std of
        Inl e \<Rightarrow> Inl e
      | Inr z \<Rightarrow>
          (case standardize xs mean std of
             Inl e \<Rightarrow> Inl e
           | Inr zs \<Rightarrow> Inr (z # zs)))"

text \<open>The branch taken when \<open>window is None or window >= len(series)\<close>.\<close>

definition full_zscore :: "real list \<Rightarrow> py_error + real list" where
  "full_zscore series =
     (case np_mean series of
        Inl e \<Rightarrow> Inl e
      | Inr mean \<Rightarrow>
          (case np_std series of
             Inl e \<Rightarrow> Inl e
           | Inr std \<Rightarrow>
               if std = 0 then Inr (replicate (length series) 0)
               else standardize series mean std))"

definition calculate_zscore :: "real list \<Rightarrow> int option \<Rightarrow> py_error + real list" where
  "calculate_zscore series window =
     (if length series = 0 then Inr []
      else
        (case window of
           None \<Rightarrow> full_zscore series
         | Some w \<Rightarrow>
             if w \<ge> int (length series) then full_zscore series
             else rolling_loop series w [w .. int (length series) - 1]
                    (replicate (length series) 0)))"

text \<open>
  The scalar z-score at the end of \<open>DataProcessor.calculate_pair_statistics\<close>:
  \<open>(spread[-1] - spread_mean) / spread_std if spread_std > 0 else 0\<close>.
\<close>

definition statistics_zscore :: "real \<Rightarrow> real \<Rightarrow> real \<Rightarrow> py_error + real" where
  "statistics_zscore spread_last spread_mean spread_std =
     (if spread_std > 0 then div_checked (spread_last - spread_mean) spread_std else Inr 0)"

text \<open>Mean and standard deviation as plain numbers, for arrays that are not empty.\<close>

definition mean_of :: "real list \<Rightarrow> real" where
  "mean_of xs = sum_list xs / real (length xs)"

definition std_of :: "real list \<Rightarrow> real" where
  "std_of xs = sqrt (mean_of (map (\<lambda>x. \<bar>x - mean_of xs\<bar> ^ 2) xs))"

section \<open>Concrete inputs\<close>

text \<open>
  A strategy with the default thresholds (entry 2.0, exit 0.5, correlation 0.8, stop-loss
  3.0) that holds a short-spread position entered at z-score 2.1, and the statistics of a
  cycle with a given correlation and z-score.
\<close>

definition gate_example_strategy :: PairsTradingStrategy where
  "gate_example_strategy =
     update_position (PairsTradingStrategy_init 60 Map.empty) ''pair'' Sell_Spread 1 (- 2) (21 / 10)"

definition gate_example_stats :: "real \<Rightarrow> real \<Rightarrow> pair_statistics option" where
  "gate_example_stats c z =
     Some \<lparr> st_correlation = c, st_hedge_ratio = 2, st_spread_mean = 0, st_spread_std = 1,
            st_current_zscore = z, st_is_cointegrated = True \<rparr>"

text \<open>A pending order, and a ledger holding one open position.\<close>

definition example_order :: Order where
  "example_order =
     Order_init (Order_Id 1 0) ''pair'' ''asset1'' ''asset2'' ''buy'' ''sell'' 1 2 None None ''market'' 0"

definition example_ledger :: PositionManager where
  "example_ledger =
     snd (open_position PositionManager_init ''pair'' ''asset1'' ''asset2'' 1 (- 2) (25 / 10) 100 50 0)"

definition example_position :: Position where
  "example_position = Position_init ''pair'' ''asset1'' ''asset2'' 1 (- 2) (25 / 10) 100 50 0"

text \<open>
  An exchange that quotes 100 and 50 for the two assets and fills the order of one leg
  only (leg 1 when \<open>leg1_fills\<close>, leg 2 otherwise), an engine on it with empty ledgers
  and the default risk settings, and a sell-spread signal.
\<close>

definition leg_example_exchange :: "bool \<Rightarrow> Exchange" where
  "leg_example_exchange leg1_fills =
     \<lparr> ex_ticker = (\<lambda>s. if s = ''asset1'' then Some 100 else if s = ''asset2'' then Some 50 else None),
       ex_reply = (\<lambda>log call.
          if (fst call = ''asset1'') = leg1_fills
          then Some \<lparr> xo_id = Some ''x'', xo_filled = Some (snd (snd call)), xo_price = Some 101 \<rparr>
          else None),
       ex_calls = [] \<rparr>"

definition leg_example_engine :: "bool \<Rightarrow> ExecutionEngine" where
  "leg_example_engine leg1_fills =
     \<lparr> ee_exchange = leg_example_exchange leg1_fills,
       ee_order_manager = OrderManager_init,
       ee_position_manager = PositionManager_init,
       ee_risk_manager = RiskManager_init Map.empty \<rparr>"

definition leg_example_signal :: trade_signal where
  "leg_example_signal =
     \<lparr> signal = Sell_Spread, sg_quantity1 = 1, sg_quantity2 = - 2, sg_zscore = 25 / 10,
       metadata = Meta_Stats (9 / 10) 2 True 0 1, sg_asset1 = None, sg_asset2 = None \<rparr>"

text \<open>
  The value the rolling loop stores at index \<open>i\<close> for a window \<open>w\<close> with
  \<open>1 \<le> w \<le> i\<close>.
\<close>

definition window_value :: "real list \<Rightarrow> int \<Rightarrow> int \<Rightarrow> real" where
  "window_value series w i =
     (let wd = take (nat w) (drop (nat (i - w)) series)
      in if std_of wd = 0 then 0 else (series ! nat i - mean_of wd) / std_of wd)"

section \<open>Lemmas\<close>

subsection \<open>Signal engine\<close>

lemma position_of_update_pair_state:
  "position_of (update_pair_state strat n stats) m = position_of strat m"
  by (simp add: position_of_def update_pair_state_def Let_def split: option.splits)

lemma thresholds_update_pair_state:
  "correlation_threshold (update_pair_state strat n stats) = correlation_threshold strat"
  "z_entry_threshold (update_pair_state strat n stats) = z_entry_threshold strat"
  "z_exit_threshold (update_pair_state strat n stats) = z_exit_threshold strat"
  "risk_manager (update_pair_state strat n stats) = risk_manager strat"
  by (simp_all add: update_pair_state_def Let_def)

lemma calculate_signals_recent:
  "calculate_signals strat (Recent_Prices stats) n =
     (decide_signal (update_pair_state strat n stats) (stats_with_defaults stats)
        (position_of strat n),
      update_pair_state strat n stats)"
  using position_of_update_pair_state [of strat n stats n]
  by (simp add: calculate_signals_def Let_def position_of_def)

lemmas strat_simps = calculate_signals_recent decide_signal_def thresholds_update_pair_state
      gate_example_strategy_def gate_example_stats_def stats_with_defaults_def
      PairsTradingStrategy_init_def RiskManager_init_def config_get_def update_position_def
      position_of_def check_stop_loss_def hold_signal_def Let_def update_pair_state_def

subsection \<open>Ledgers\<close>

lemma status_foldl_update_status:
  "status (foldl update_status ord ss) = (if ss = [] then status ord else last ss)"
  by (induction ss arbitrary: ord) (simp_all add: update_status_def)

lemma open_pnl_inv:
  assumes "\<forall>n p. positions pm n = Some p \<and> \<not> is_closed p \<longrightarrow> pnl p = 0"
  shows "\<forall>n p. positions (snd (open_position pm m a1 a2 q1 q2 z e1 e2 now)) n = Some p \<and> \<not> is_closed p \<longrightarrow> pnl p = 0"
  using assms
  by (auto simp add: open_position_def Position_init_def Let_def split: option.splits if_splits)

lemma close_pnl_inv:
  assumes "\<forall>n p. positions pm n = Some p \<and> \<not> is_closed p \<longrightarrow> pnl p = 0"
  shows "\<forall>n p. positions (snd (close_position pm m x1 x2 now)) n = Some p \<and> \<not> is_closed p \<longrightarrow> pnl p = 0"
  using assms
  by (auto simp add: close_position_def close_def Let_def split: option.splits if_splits)

lemma reachable_open_pnl:
  "reachable_ledger pm \<Longrightarrow> \<forall>n p. positions pm n = Some p \<and> \<not> is_closed p \<longrightarrow> pnl p = 0"
proof (induction rule: reachable_ledger.induct)
  case ledger_init
  show ?case by (simp add: PositionManager_init_def)
next
  case (ledger_open pm pair_name asset1 asset2 quantity1 quantity2 entry_zscore entry_price1 entry_price2 now)
  from ledger_open.IH show ?case by (rule open_pnl_inv)
next
  case (ledger_close pm pair_name exit_price1 exit_price2 now)
  from ledger_close.IH show ?case by (rule close_pnl_inv)
qed

lemma example_ledger_position: "positions example_ledger ''pair'' = Some example_position"
  by (simp add: example_ledger_def example_position_def open_position_def
      PositionManager_init_def Let_def)

lemmas ex_simps = execute_signal_def submit_legs_def leg_example_engine_def leg_example_exchange_def
  leg_example_signal_def get_ticker_def adjust_quantities_def calculate_position_size_def
  RiskManager_init_def config_get_def create_order_def Order_init_def OrderManager_init_def
  place_market_order_def record_leg1_def record_leg2_def update_status_def failure_payload_def
  Let_def

subsection \<open>Z-score\<close>

lemma np_mean_nonempty: "xs \<noteq> [] \<Longrightarrow> np_mean xs = Inr (mean_of xs)"
  by (simp add: np_mean_def div_checked_def mean_of_def)

lemma np_std_nonempty: "xs \<noteq> [] \<Longrightarrow> np_std xs = Inr (std_of xs)"
  by (simp add: np_std_def np_mean_nonempty std_of_def)

lemma standardize_nonzero:
  "std \<noteq> 0 \<Longrightarrow> standardize xs m std = Inr (map (\<lambda>x. (x - m) / std) xs)"
  by (induction xs) (simp_all add: div_checked_def)

lemma full_zscore_nonempty:
  "xs \<noteq> [] \<Longrightarrow>
   full_zscore xs =
     Inr (if std_of xs = 0 then replicate (length xs) 0
          else map (\<lambda>x. (x - mean_of xs) / std_of xs) xs)"
  by (simp add: full_zscore_def np_mean_nonempty np_std_nonempty standardize_nonzero)

lemma py_slice_window:
  assumes "1 \<le> w" "w \<le> i" "i < int (length xs)"
  shows "py_slice xs (i - w) i = take (nat w) (drop (nat (i - w)) xs)"
    and "take (nat w) (drop (nat (i - w)) xs) \<noteq> []"
proof -
  have lo: "slice_bound (length xs) (i - w) = nat (i - w)"
    using assms by (simp add: slice_bound_def min_def)
  have hi: "slice_bound (length xs) i = nat i"
    using assms by (simp add: slice_bound_def min_def)
  have d: "nat i - nat (i - w) = nat w" using assms by linarith
  have lt: "nat (i - w) < nat i" using assms by linarith
  show "py_slice xs (i - w) i = take (nat w) (drop (nat (i - w)) xs)"
    unfolding py_slice_def Let_def lo hi by (simp only: lt d if_True)
  have "nat (i - w) < length xs" using assms by linarith
  moreover have "0 < nat w" using assms by linarith
  ultimately show "take (nat w) (drop (nat (i - w)) xs) \<noteq> []" by simp
qed

lemma rolling_step_window:
  assumes "1 \<le> w" "w \<le> i" "i < int (length series)" "length zs = length series"
  shows "rolling_step series w zs i = Inr (zs[nat i := window_value series w i])"
proof -
  let ?wd = "take (nat w) (drop (nat (i - w)) series)"
  have sl: "py_slice series (i - w) i = ?wd" and ne: "?wd \<noteq> []"
    using py_slice_window [OF assms(1-3)] by simp_all
  have g: "py_get series i = Inr (series ! nat i)"
    using assms by (simp add: py_get_def py_index_def)
  have s: "\<And>v. py_set zs i v = Inr (zs[nat i := v])"
    using assms by (simp add: py_set_def py_index_def)
  show ?thesis
    by (simp add: rolling_step_def sl np_mean_nonempty [OF ne] np_std_nonempty [OF ne] g s
        div_checked_def window_value_def Let_def)
qed

lemma rolling_loop_window:
  assumes "1 \<le> w" "\<forall>i \<in> set is. w \<le> i \<and> i < int (length series)" "length zs = length series"
  shows "\<exists>zs'. rolling_loop series w is zs = Inr zs' \<and> length zs' = length series
           \<and> (\<forall>j < length series. zs' ! j =
                 (if int j \<in> set is then window_value series w (int j) else zs ! j))"
  using assms(2,3)
proof (induction "is" arbitrary: zs)
  case Nil
  then show ?case by simp
next
  case (Cons i rest)
  have i: "w \<le> i" "i < int (length series)" using Cons.prems(1) by simp_all
  have st: "rolling_step series w zs i = Inr (zs[nat i := window_value series w i])"
    using rolling_step_window [OF assms(1) i Cons.prems(2)] .
  have len: "length (zs[nat i := window_value series w i]) = length series"
    using Cons.prems(2) by simp
  have rest: "\<forall>k \<in> set rest. w \<le> k \<and> k < int (length series)" using Cons.prems(1) by simp
  from Cons.IH [OF rest len] obtain zs' where
    r: "rolling_loop series w rest (zs[nat i := window_value series w i]) = Inr zs'"
    and l: "length zs' = length series"
    and v: "\<forall>j < length series. zs' ! j =
              (if int j \<in> set rest then window_value series w (int j)
               else (zs[nat i := window_value series w i]) ! j)"
    by blast
  have "\<forall>j < length series. zs' ! j =
          (if int j \<in> set (i # rest) then window_value series w (int j) else zs ! j)"
  proof (intro allI impI)
    fix j assume j: "j < length series"
    have i0: "0 \<le> i" using assms(1) i by linarith
    show "zs' ! j = (if int j \<in> set (i # rest) then window_value series w (int j) else zs ! j)"
    proof (cases "int j = i")
      case True
      then have "nat i = j" by simp
      then show ?thesis using v j True Cons.prems(2) by auto
    next
      case False
      then have "nat i \<noteq> j" using i0 by auto
      then show ?thesis using v j False by auto
    qed
  qed
  then show ?case using st r l by simp
qed

section \<open>The claims\<close>

subsection \<open>C1: the correlation gate and an open position\<close>

text \<open>
  Claim C1, as stated, says that with an open position and a correlation below the
  threshold the stop-loss and convergence-exit rules are evaluated as they would be above
  the threshold. The code returns hold before it looks at the position. Here a short
  spread entered at z-score 2.1 stands at z-score 3.2, beyond the stop-loss level 3.0:
  with correlation 0.5 the signal is hold, with correlation 0.9 it is close.
\<close>

theorem correlation_gate_blocks_exit_counterexample:
  "signal (fst (calculate_signals gate_example_strategy (Recent_Prices (gate_example_stats (5 / 10) (32 / 10))) ''pair'')) = Hold
   \<and> signal (fst (calculate_signals gate_example_strategy (Recent_Prices (gate_example_stats (9 / 10) (32 / 10))) ''pair'')) = Close"
  by (simp add: calculate_signals_recent decide_signal_def thresholds_update_pair_state
      gate_example_strategy_def gate_example_stats_def stats_with_defaults_def
      PairsTradingStrategy_init_def RiskManager_init_def config_get_def update_position_def
      position_of_def check_stop_loss_def hold_signal_def Let_def)

text \<open>
  Claim C1, amended: whenever the correlation is below the threshold,
  \<open>calculate_signals\<close> returns hold with zero quantities, whatever the stored
  position (so the gate never force-closes a position, and no exit rule is evaluated in
  that cycle), and the stored position is unchanged.
\<close>

theorem correlation_gate_returns_hold:
  assumes "st_correlation (stats_with_defaults stats) < correlation_threshold strat"
  shows "fst (calculate_signals strat (Recent_Prices stats) n) =
           hold_signal (st_current_zscore (stats_with_defaults stats))
             (Meta_Low_Correlation (st_correlation (stats_with_defaults stats)))
         \<and> position_of (snd (calculate_signals strat (Recent_Prices stats) n)) n = position_of strat n"
  using assms
  by (simp add: calculate_signals_recent decide_signal_def thresholds_update_pair_state
      position_of_update_pair_state Let_def)

theorem correlation_gate_returns_hold_witness:
  "st_correlation (stats_with_defaults (gate_example_stats (5 / 10) (32 / 10)))
     < correlation_threshold gate_example_strategy
   \<and> fst (calculate_signals gate_example_strategy
             (Recent_Prices (gate_example_stats (5 / 10) (32 / 10))) ''pair'') =
       hold_signal (32 / 10) (Meta_Low_Correlation (5 / 10))
   \<and> position_of (snd (calculate_signals gate_example_strategy
             (Recent_Prices (gate_example_stats (5 / 10) (32 / 10))) ''pair'')) ''pair'' =
       Some \<lparr> pr_quantity1 = 1, pr_quantity2 = - 2, pr_entry_zscore = 21 / 10 \<rparr>"
  using correlation_gate_returns_hold [of "gate_example_stats (5 / 10) (32 / 10)" gate_example_strategy "''pair''"]
  by (simp add: strat_simps)

subsection \<open>C2: one leg filled, the other not\<close>

text \<open>
  Claim C2, as stated, says that the failure payload reports which leg filled, with its
  filled quantity and price. The payload of the code has the keys \<open>success\<close>,
  \<open>order_id\<close> and \<open>error\<close> only: it is the same whether leg 1 alone or leg 2
  alone was filled.
\<close>

theorem one_leg_failure_payload_counterexample:
  "fst (execute_signal (leg_example_engine True) leg_example_signal ''pair'' 10000 0) =
     Some [(''success'', PBool False), (''order_id'', POrder_Id (Order_Id 1 0)),
           (''error'', PStr ''order execution failed'')]
   \<and> fst (execute_signal (leg_example_engine False) leg_example_signal ''pair'' 10000 0) =
     Some [(''success'', PBool False), (''order_id'', POrder_Id (Order_Id 1 0)),
           (''error'', PStr ''order execution failed'')]"
  by (simp add: ex_simps)

text \<open>
  Claim C2, amended: for a signal other than hold with both prices available, when
  exactly one of the two legs is answered with a fill, both market orders have been placed,
  leg 1 before leg 2 (the answer to leg 2 is asked with leg 1 in the log); the position
  ledger is unchanged; the result is the failure payload with \<open>success = False\<close>,
  the order id and the fixed error text; and the order stored in the order ledger under
  that id is REJECTED and shows which leg was filled: for the leg that was answered it
  carries the exchange's order id, the filled quantity and the filled price (the requested
  quantity and the ticker price where the answer lacks them), and for the refused leg it
  keeps the initial values (no exchange order id, filled quantity 0, filled price 0).
\<close>

theorem one_leg_failure_outcome:
  assumes "signal sg \<noteq> Hold"
    and "a1 = (case sg_asset1 sg of Some a \<Rightarrow> a | None \<Rightarrow> ''asset1'')"
    and "a2 = (case sg_asset2 sg of Some a \<Rightarrow> a | None \<Rightarrow> ''asset2'')"
    and "get_ticker (ee_exchange eng) a1 = Some price1"
    and "get_ticker (ee_exchange eng) a2 = Some price2"
    and "adjust_quantities (ee_risk_manager eng) (signal sg) (sg_quantity1 sg) (sg_quantity2 sg)
           price1 price2 account_balance = (q1, q2)"
    and "c1 = (a1, if q1 > 0 then ''buy'' else ''sell'', \<bar>q1\<bar>)"
    and "c2 = (a2, if q2 > 0 then ''buy'' else ''sell'', \<bar>q2\<bar>)"
    and "r1 = ex_reply (ee_exchange eng) (ex_calls (ee_exchange eng)) c1"
    and "r2 = ex_reply (ee_exchange eng) (ex_calls (ee_exchange eng) @ [c1]) c2"
    and "(r1 = None) \<noteq> (r2 = None)"
    and "oid = Order_Id (order_counter (ee_order_manager eng) + 1) now"
    and "execute_signal eng sg pair_name account_balance now = (res, eng')"
  shows "ex_calls (ee_exchange eng') = ex_calls (ee_exchange eng) @ [c1, c2]
       \<and> ee_position_manager eng' = ee_position_manager eng
       \<and> res = Some [(''success'', PBool False), (''order_id'', POrder_Id oid),
                     (''error'', PStr ''order execution failed'')]
       \<and> (\<exists>ord. orders (ee_order_manager eng') oid = Some ord \<and> status ord = REJECTED
            \<and> or_order_id ord = oid \<and> or_pair_name ord = pair_name
            \<and> or_asset1 ord = a1 \<and> or_asset2 ord = a2
            \<and> or_side1 ord = fst (snd c1) \<and> or_side2 ord = fst (snd c2)
            \<and> or_quantity1 ord = \<bar>q1\<bar> \<and> or_quantity2 ord = \<bar>q2\<bar>
            \<and> (case r1 of
                  None \<Rightarrow>
                    exchange_order_id1 ord = None \<and> filled_quantity1 ord = 0
                    \<and> filled_price1 ord = 0
                | Some r \<Rightarrow>
                    exchange_order_id1 ord = xo_id r
                    \<and> filled_quantity1 ord = (case xo_filled r of Some f \<Rightarrow> f | None \<Rightarrow> \<bar>q1\<bar>)
                    \<and> filled_price1 ord = (case xo_price r of Some p \<Rightarrow> p | None \<Rightarrow> price1))
            \<and> (case r2 of
                  None \<Rightarrow>
                    exchange_order_id2 ord = None \<and> filled_quantity2 ord = 0
                    \<and> filled_price2 ord = 0
                | Some r \<Rightarrow>
                    exchange_order_id2 ord = xo_id r
                    \<and> filled_quantity2 ord = (case xo_filled r of Some f \<Rightarrow> f | None \<Rightarrow> \<bar>q2\<bar>)
                    \<and> filled_price2 ord = (case xo_price r of Some p \<Rightarrow> p | None \<Rightarrow> price2)))"
proof -
  define s1 where "s1 = (if q1 > 0 then ''buy'' else ''sell'')"
  define s2 where "s2 = (if q2 > 0 then ''buy'' else ''sell'')"
  have e: "execute_signal eng sg pair_name account_balance now =
             submit_legs eng (signal sg) pair_name a1 a2 (sg_zscore sg) price1 price2 q1 q2 s1 s2 now"
    using assms(1,4,5,6) unfolding s1_def s2_def assms(2,3)
    by (simp add: execute_signal_def Let_def)
  have r: "r1 = ex_reply (ee_exchange eng) (ex_calls (ee_exchange eng)) (a1, s1, \<bar>q1\<bar>)"
    "r2 = ex_reply (ee_exchange eng) (ex_calls (ee_exchange eng) @ [(a1, s1, \<bar>q1\<bar>)]) (a2, s2, \<bar>q2\<bar>)"
    "c1 = (a1, s1, \<bar>q1\<bar>)" "c2 = (a2, s2, \<bar>q2\<bar>)"
    using assms(7-10) by (simp_all add: s1_def s2_def)
  have sl: "submit_legs eng (signal sg) pair_name a1 a2 (sg_zscore sg) price1 price2 q1 q2 s1 s2 now =
     (let (order0, om) = create_order (ee_order_manager eng) pair_name a1 a2
                           s1 s2 \<bar>q1\<bar> \<bar>q2\<bar> None None ''market'' now;
          order2 = record_leg2 (record_leg1 order0 r1 q1 price1) r2 q2 price2;
          order3 = update_status order2 REJECTED
      in (Some (failure_payload order3),
          eng \<lparr> ee_exchange := (ee_exchange eng) \<lparr> ex_calls := ex_calls (ee_exchange eng) @ [c1, c2] \<rparr>,
                ee_order_manager := om \<lparr> orders := (orders om)(or_order_id order3 \<mapsto> order3) \<rparr> \<rparr>))"
    using assms(11) unfolding r
    by (auto simp add: submit_legs_def Let_def place_market_order_def split_def)
  show ?thesis
    using assms(12,13) unfolding e sl
    by (cases r1; cases r2)
       (auto simp add: Let_def create_order_def Order_init_def record_leg1_def record_leg2_def
          update_status_def failure_payload_def r)
qed

theorem one_leg_failure_outcome_witness:
  "signal leg_example_signal \<noteq> Hold
   \<and> get_ticker (ee_exchange (leg_example_engine True)) ''asset1'' = Some 100
   \<and> get_ticker (ee_exchange (leg_example_engine True)) ''asset2'' = Some 50
   \<and> adjust_quantities (ee_risk_manager (leg_example_engine True)) Sell_Spread 1 (- 2) 100 50 10000
       = (1, - 2)
   \<and> ex_reply (ee_exchange (leg_example_engine True)) [] (''asset1'', ''buy'', 1)
       = Some \<lparr> xo_id = Some ''x'', xo_filled = Some 1, xo_price = Some 101 \<rparr>
   \<and> ex_reply (ee_exchange (leg_example_engine True)) [(''asset1'', ''buy'', 1)] (''asset2'', ''sell'', 2)
       = None
   \<and> ex_calls (ee_exchange (snd (execute_signal (leg_example_engine True) leg_example_signal ''pair'' 10000 0)))
       = [(''asset1'', ''buy'', 1), (''asset2'', ''sell'', 2)]
   \<and> ee_position_manager (snd (execute_signal (leg_example_engine True) leg_example_signal ''pair'' 10000 0))
       = PositionManager_init
   \<and> fst (execute_signal (leg_example_engine True) leg_example_signal ''pair'' 10000 0)
       = Some [(''success'', PBool False), (''order_id'', POrder_Id (Order_Id 1 0)),
               (''error'', PStr ''order execution failed'')]
   \<and> (\<exists>ord. orders (ee_order_manager
                  (snd (execute_signal (leg_example_engine True) leg_example_signal ''pair'' 10000 0)))
                (Order_Id 1 0) = Some ord
          \<and> status ord = REJECTED
          \<and> exchange_order_id1 ord = Some ''x'' \<and> filled_quantity1 ord = 1
          \<and> filled_price1 ord = 101
          \<and> exchange_order_id2 ord = None \<and> filled_quantity2 ord = 0
          \<and> filled_price2 ord = 0)"
  using one_leg_failure_outcome [of leg_example_signal "''asset1''" "''asset2''" "leg_example_engine True" 100 50
      10000 1 "- 2" "(''asset1'', ''buy'', 1)" "(''asset2'', ''sell'', 2)"
      "Some \<lparr> xo_id = Some ''x'', xo_filled = Some 1, xo_price = Some 101 \<rparr>" None
      "Order_Id 1 0" 0 "''pair''"
      "fst (execute_signal (leg_example_engine True) leg_example_signal ''pair'' 10000 0)"
      "snd (execute_signal (leg_example_engine True) leg_example_signal ''pair'' 10000 0)"]
  by (simp add: ex_simps)

subsection \<open>C3: exit rules with an open position\<close>

text \<open>
  Claim C3: with an open position and the correlation not below the threshold, the
  stop-loss test comes first: if it triggers, the signal is close with the negated stored
  quantities; if it does not and \<open>|zscore| < z_exit_threshold\<close>, the signal is close
  with the same negated quantities; otherwise the signal is hold with zero quantities.
  The stored position is unchanged by \<open>calculate_signals\<close> in every case.
\<close>

theorem exit_rules_stop_loss_first:
  assumes "position_of strat n = Some pos"
    and "\<not> st_correlation (stats_with_defaults stats) < correlation_threshold strat"
  shows "(let z = st_current_zscore (stats_with_defaults stats);
              stop = check_stop_loss (risk_manager strat) z (pr_entry_zscore pos);
              (sg, strat') = calculate_signals strat (Recent_Prices stats) n
          in (stop \<longrightarrow> signal sg = Close \<and> sg_quantity1 sg = - pr_quantity1 pos
                        \<and> sg_quantity2 sg = - pr_quantity2 pos)
           \<and> (\<not> stop \<and> \<bar>z\<bar> < z_exit_threshold strat \<longrightarrow>
                 signal sg = Close \<and> sg_quantity1 sg = - pr_quantity1 pos
                        \<and> sg_quantity2 sg = - pr_quantity2 pos)
           \<and> (\<not> stop \<and> \<not> \<bar>z\<bar> < z_exit_threshold strat \<longrightarrow>
                 signal sg = Hold \<and> sg_quantity1 sg = 0 \<and> sg_quantity2 sg = 0)
           \<and> position_of strat' n = Some pos)"
  using assms
  by (simp add: calculate_signals_recent decide_signal_def thresholds_update_pair_state
      position_of_update_pair_state Let_def)

theorem exit_rules_stop_loss_first_witness:
  "position_of gate_example_strategy ''pair'' =
     Some \<lparr> pr_quantity1 = 1, pr_quantity2 = - 2, pr_entry_zscore = 21 / 10 \<rparr>
   \<and> \<not> st_correlation (stats_with_defaults (gate_example_stats (9 / 10) (32 / 10)))
         < correlation_threshold gate_example_strategy
   \<and> check_stop_loss (risk_manager gate_example_strategy) (32 / 10) (21 / 10)
   \<and> signal (fst (calculate_signals gate_example_strategy
                (Recent_Prices (gate_example_stats (9 / 10) (32 / 10))) ''pair'')) = Close
   \<and> sg_quantity1 (fst (calculate_signals gate_example_strategy
                (Recent_Prices (gate_example_stats (9 / 10) (32 / 10))) ''pair'')) = - 1
   \<and> sg_quantity2 (fst (calculate_signals gate_example_strategy
                (Recent_Prices (gate_example_stats (9 / 10) (32 / 10))) ''pair'')) = 2
   \<and> signal (fst (calculate_signals gate_example_strategy
                (Recent_Prices (gate_example_stats (9 / 10) (3 / 10))) ''pair'')) = Close
   \<and> signal (fst (calculate_signals gate_example_strategy
                (Recent_Prices (gate_example_stats (9 / 10) 1)) ''pair'')) = Hold"
  using exit_rules_stop_loss_first [of gate_example_strategy "''pair''"
      "\<lparr> pr_quantity1 = 1, pr_quantity2 = - 2, pr_entry_zscore = 21 / 10 \<rparr>"
      "gate_example_stats (9 / 10) (32 / 10)"]
    exit_rules_stop_loss_first [of gate_example_strategy "''pair''"
      "\<lparr> pr_quantity1 = 1, pr_quantity2 = - 2, pr_entry_zscore = 21 / 10 \<rparr>"
      "gate_example_stats (9 / 10) (3 / 10)"]
    exit_rules_stop_loss_first [of gate_example_strategy "''pair''"
      "\<lparr> pr_quantity1 = 1, pr_quantity2 = - 2, pr_entry_zscore = 21 / 10 \<rparr>"
      "gate_example_stats (9 / 10) 1"]
  by (simp add: strat_simps)

subsection \<open>C4: order status\<close>

text \<open>
  Claim C4, as stated, says that no \<open>update_status\<close> call changes a status that
  is FILLED, REJECTED or CANCELLED. The method assigns the new status without looking at
  the old one: a FILLED order becomes REJECTED.
\<close>

theorem update_status_terminal_counterexample:
  "status (update_status example_order FILLED) = FILLED
   \<and> status (update_status (update_status example_order FILLED) REJECTED) = REJECTED"
  by (simp add: update_status_def)

text \<open>
  Claim C4, amended: \<open>update_status\<close> sets the status to its argument whatever
  the current status, so a status (terminal or not) is kept exactly when the call asks
  for the same status, and after any non-empty sequence of calls the status is the
  argument of the last call.
\<close>

theorem update_status_overwrites:
  "status (update_status ord s) = s
   \<and> (status (update_status ord s) = status ord \<longleftrightarrow> s = status ord)
   \<and> (ss \<noteq> [] \<longrightarrow> status (foldl update_status ord ss) = last ss)"
  by (simp add: status_foldl_update_status) (auto simp add: update_status_def)

theorem update_status_overwrites_witness:
  "[FILLED, CANCELLED] \<noteq> []
   \<and> status (foldl update_status example_order [FILLED, CANCELLED]) = CANCELLED"
  using update_status_overwrites [of example_order FILLED "[FILLED, CANCELLED]"] by simp

subsection \<open>C5: opening a position twice\<close>

text \<open>
  Claim C5: when the ledger holds a position of the pair that is not closed,
  \<open>open_position\<close> returns that position and leaves the ledger as it is; and after
  any \<open>open_position\<close> the pair has a position that is not closed, which a second
  \<open>open_position\<close> with any arguments returns, again without changing the ledger.
  The ledger maps a pair name to one position, so a pair never has two.
\<close>

theorem open_position_existing_idempotent:
  "(positions pm n = Some p \<and> \<not> is_closed p \<longrightarrow>
      open_position pm n a1 a2 q1 q2 z e1 e2 now = (p, pm))
   \<and> (open_position pm n a1 a2 q1 q2 z e1 e2 now = (p1, pm1) \<longrightarrow>
        positions pm1 n = Some p1 \<and> \<not> is_closed p1
        \<and> open_position pm1 n a1' a2' q1' q2' z' e1' e2' now' = (p1, pm1))"
  by (auto simp add: open_position_def Position_init_def Let_def split: option.splits if_splits)

theorem open_position_existing_idempotent_witness:
  "positions example_ledger ''pair'' = Some example_position
   \<and> \<not> is_closed example_position
   \<and> open_position example_ledger ''pair'' ''asset1'' ''asset2'' 3 (- 4) (- 3) 7 8 9 =
       (example_position, example_ledger)"
  using open_position_existing_idempotent [of example_ledger "''pair''" example_position "''asset1''" "''asset2''" 3 "- 4" "- 3" 7 8 9]
    example_ledger_position
  by (simp add: example_position_def Position_init_def)

subsection \<open>C6: entry rules without a position\<close>

text \<open>
  Claim C6: without a position and with the correlation at or above the threshold, a
  z-score above the entry threshold gives sell-spread with quantities 1 and minus the
  hedge ratio; else a z-score below minus the entry threshold gives buy-spread with
  quantities -1 and the hedge ratio; else hold with zero quantities. The rules are tried
  in this order; for an entry threshold that is not negative the first two cannot both
  apply, and then a z-score below minus the threshold always gives buy-spread.
\<close>

theorem flat_entry_rules:
  assumes "position_of strat n = None"
    and "st_correlation (stats_with_defaults stats) \<ge> correlation_threshold strat"
  shows "(let z = st_current_zscore (stats_with_defaults stats);
              h = st_hedge_ratio (stats_with_defaults stats);
              e = z_entry_threshold strat;
              sg = fst (calculate_signals strat (Recent_Prices stats) n)
          in (z > e \<longrightarrow> signal sg = Sell_Spread \<and> sg_quantity1 sg = 1 \<and> sg_quantity2 sg = - h)
           \<and> (\<not> z > e \<and> z < - e \<longrightarrow>
                 signal sg = Buy_Spread \<and> sg_quantity1 sg = - 1 \<and> sg_quantity2 sg = h)
           \<and> (\<not> z > e \<and> \<not> z < - e \<longrightarrow>
                 signal sg = Hold \<and> sg_quantity1 sg = 0 \<and> sg_quantity2 sg = 0)
           \<and> (0 \<le> e \<and> z < - e \<longrightarrow>
                 signal sg = Buy_Spread \<and> sg_quantity1 sg = - 1 \<and> sg_quantity2 sg = h))"
  using assms
  by (simp add: calculate_signals_recent decide_signal_def thresholds_update_pair_state
      position_of_update_pair_state Let_def)

theorem flat_entry_rules_witness:
  "position_of (PairsTradingStrategy_init 60 Map.empty) ''pair'' = None
   \<and> st_correlation (stats_with_defaults (gate_example_stats (9 / 10) (25 / 10)))
        \<ge> correlation_threshold (PairsTradingStrategy_init 60 Map.empty)
   \<and> signal (fst (calculate_signals (PairsTradingStrategy_init 60 Map.empty)
                (Recent_Prices (gate_example_stats (9 / 10) (25 / 10))) ''pair'')) = Sell_Spread
   \<and> sg_quantity1 (fst (calculate_signals (PairsTradingStrategy_init 60 Map.empty)
                (Recent_Prices (gate_example_stats (9 / 10) (25 / 10))) ''pair'')) = 1
   \<and> sg_quantity2 (fst (calculate_signals (PairsTradingStrategy_init 60 Map.empty)
                (Recent_Prices (gate_example_stats (9 / 10) (25 / 10))) ''pair'')) = - 2
   \<and> signal (fst (calculate_signals (PairsTradingStrategy_init 60 Map.empty)
                (Recent_Prices (gate_example_stats (9 / 10) (- 25 / 10))) ''pair'')) = Buy_Spread
   \<and> sg_quantity1 (fst (calculate_signals (PairsTradingStrategy_init 60 Map.empty)
                (Recent_Prices (gate_example_stats (9 / 10) (- 25 / 10))) ''pair'')) = - 1
   \<and> sg_quantity2 (fst (calculate_signals (PairsTradingStrategy_init 60 Map.empty)
                (Recent_Prices (gate_example_stats (9 / 10) (- 25 / 10))) ''pair'')) = 2
   \<and> signal (fst (calculate_signals (PairsTradingStrategy_init 60 Map.empty)
                (Recent_Prices (gate_example_stats (9 / 10) 1)) ''pair'')) = Hold"
  using flat_entry_rules [of "PairsTradingStrategy_init 60 Map.empty" "''pair''"
      "gate_example_stats (9 / 10) (25 / 10)"]
    flat_entry_rules [of "PairsTradingStrategy_init 60 Map.empty" "''pair''"
      "gate_example_stats (9 / 10) (- 25 / 10)"]
    flat_entry_rules [of "PairsTradingStrategy_init 60 Map.empty" "''pair''"
      "gate_example_stats (9 / 10) 1"]
  by (simp add: strat_simps)

subsection \<open>C7: position size\<close>

text \<open>
  Claim C7, as stated, says that the size is never negative and that the fraction and
  the maximal fraction are validated to lie in (0, 1]. Nothing is validated: a maximal
  fraction of -1 and a fraction of 2 are taken as they are, and the size for a balance
  of 100 is -100.
\<close>

theorem position_size_negative_counterexample:
  "calculate_position_size (RiskManager_init (Map.empty(''max_position'' \<mapsto> - 1))) 100 (Some 2) = - 100"
  by (simp add: calculate_position_size_def RiskManager_init_def config_get_def)

text \<open>
  Claim C7, amended: the size is the smaller of balance times fraction (the given
  fraction, or the configured one when none is given) and balance times the maximal
  fraction; it is not negative when the balance, the fraction and the maximal fraction
  are not negative; the configured fractions are stored as they are, without validation.
\<close>

theorem position_size_min:
  "calculate_position_size rm balance fraction =
     min (balance * (case fraction of Some f \<Rightarrow> f | None \<Rightarrow> position_size rm))
         (balance * max_position_size rm)
   \<and> (0 \<le> balance \<and> 0 \<le> (case fraction of Some f \<Rightarrow> f | None \<Rightarrow> position_size rm)
        \<and> 0 \<le> max_position_size rm \<longrightarrow> 0 \<le> calculate_position_size rm balance fraction)
   \<and> (config ''max_position'' = Some m \<longrightarrow> max_position_size (RiskManager_init config) = m)
   \<and> (config ''position_size'' = Some f \<longrightarrow> position_size (RiskManager_init config) = f)"
  by (simp add: calculate_position_size_def RiskManager_init_def config_get_def Let_def)

theorem position_size_min_witness:
  "calculate_position_size (RiskManager_init (Map.empty(''max_position'' \<mapsto> 3 / 10))) 1000 (Some (5 / 10)) = 300
   \<and> 0 \<le> calculate_position_size (RiskManager_init (Map.empty(''max_position'' \<mapsto> 3 / 10))) 1000 (Some (5 / 10))
   \<and> max_position_size (RiskManager_init (Map.empty(''max_position'' \<mapsto> 3 / 10))) = 3 / 10
   \<and> position_size (RiskManager_init (Map.empty(''position_size'' \<mapsto> 5))) = 5"
  using position_size_min [of "RiskManager_init (Map.empty(''max_position'' \<mapsto> 3 / 10))" 1000 "Some (5 / 10)"
      "Map.empty(''max_position'' \<mapsto> 3 / 10)" "3 / 10" 0]
    position_size_min [of "RiskManager_init Map.empty" 0 None
      "Map.empty(''position_size'' \<mapsto> 5)" 0 5]
  by (simp add: RiskManager_init_def config_get_def)

subsection \<open>C8: realized profit and loss\<close>

text \<open>
  Claim C8: \<open>close\<close> sets the profit and loss to
  \<open>(exit_price1 - entry_price1) * quantity1 + (exit_price2 - entry_price2) * quantity2\<close>
  and marks the position closed; a new position has profit and loss 0 and is not closed,
  and in every ledger built by \<open>open_position\<close> and \<open>close_position\<close> a
  position that is not closed has profit and loss 0; for quantities 1 and -2, entry
  prices 100 and 50 and exit prices 110 and 55 the realized profit and loss is 0.
\<close>

theorem close_realizes_pnl:
  "pnl (close p x1 x2 now) =
     (x1 - po_entry_price1 p) * po_quantity1 p + (x2 - po_entry_price2 p) * po_quantity2 p
   \<and> is_closed (close p x1 x2 now)
   \<and> pnl (Position_init n a1 a2 q1 q2 z e1 e2 t) = 0
   \<and> \<not> is_closed (Position_init n a1 a2 q1 q2 z e1 e2 t)
   \<and> (reachable_ledger pm \<and> positions pm n = Some q \<and> \<not> is_closed q \<longrightarrow> pnl q = 0)
   \<and> pnl (close (Position_init n a1 a2 1 (- 2) z 100 50 t) 110 55 now) = 0"
  using reachable_open_pnl [of pm]
  by (auto simp add: close_def Position_init_def Let_def)

theorem close_realizes_pnl_witness:
  "reachable_ledger example_ledger
   \<and> positions example_ledger ''pair'' = Some example_position
   \<and> \<not> is_closed example_position
   \<and> pnl example_position = 0
   \<and> pnl (close example_position 110 55 1) = 0
   \<and> is_closed (close example_position 110 55 1)"
proof -
  have r: "reachable_ledger example_ledger"
    unfolding example_ledger_def by (rule ledger_open) (rule ledger_init)
  have o: "\<not> is_closed example_position"
    by (simp add: example_position_def Position_init_def)
  show ?thesis
    using close_realizes_pnl [of example_position 110 55 1 "''pair''" "''asset1''" "''asset2''" 1 "- 2" 0 100 50 0
        example_ledger example_position]
      r o example_ledger_position
    by (simp add: example_position_def Position_init_def)
qed

subsection \<open>C9: the z-score divides by no zero\<close>

text \<open>
  Claim C9, as stated, is for every series and every window. With the window 0 the
  rolling branch is taken and the window data \<open>series[i-0:i]\<close> is empty: its mean
  is the division of 0 by 0.
\<close>

theorem zscore_window_zero_counterexample: "calculate_zscore [1, 2, 3] (Some 0) = Inl Zero_Division"
  by (simp add: calculate_zscore_def upto_rec1 rolling_step_def py_slice_def slice_bound_def
      np_mean_def div_checked_def)

text \<open>
  Claim C9, amended: for every series, and a window that is \<open>None\<close> or at least
  1, the computation returns an array as long as the series and no division has a zero
  divisor. Without a window, or with one at least as long as the series, every point is
  standardized by the mean and standard deviation of the whole series, and all points are
  0 when that standard deviation is 0. In the rolling branch the points before the window
  are 0, and the point \<open>j\<close> is standardized by the mean and standard deviation of the
  \<open>window\<close> points before it, and is 0 when that standard deviation is 0. The scalar
  z-score of the pair statistics divides only by a positive standard deviation.
\<close>

theorem zscore_total_positive_window:
  assumes "window = None \<or> (\<exists>w. window = Some w \<and> 1 \<le> w)"
  shows "(\<exists>zs. calculate_zscore series window = Inr zs \<and> length zs = length series
           \<and> (\<forall>j < length series. zs ! j =
                (case window of
                   None \<Rightarrow>
                     (if std_of series = 0 then 0
                      else (series ! j - mean_of series) / std_of series)
                 | Some w \<Rightarrow>
                     if int (length series) \<le> w then
                       (if std_of series = 0 then 0
                        else (series ! j - mean_of series) / std_of series)
                     else if int j < w then 0
                     else
                       (let wd = take (nat w) (drop (j - nat w) series)
                        in if std_of wd = 0 then 0 else (series ! j - mean_of wd) / std_of wd))))
         \<and> (\<exists>z. statistics_zscore spread_last spread_mean spread_std = Inr z)"
    (is "?main \<and> ?stat")
proof
  show ?stat
    by (simp add: statistics_zscore_def div_checked_def)
  show ?main
  proof (cases "series = []")
    case True
    then show ?thesis by (simp add: calculate_zscore_def)
  next
    case ne: False
    show ?thesis
    proof (cases "window = None \<or> (\<exists>w. window = Some w \<and> int (length series) \<le> w)")
      case True
      then have "calculate_zscore series window = full_zscore series"
        using ne by (auto simp add: calculate_zscore_def)
      then show ?thesis using True full_zscore_nonempty [OF ne] by auto
    next
      case False
      with assms obtain w where w: "window = Some w" "1 \<le> w" "w < int (length series)"
        by auto
      have c: "calculate_zscore series window =
                 rolling_loop series w [w .. int (length series) - 1] (replicate (length series) 0)"
        using ne w by (simp add: calculate_zscore_def)
      have r: "\<forall>i \<in> set [w .. int (length series) - 1]. w \<le> i \<and> i < int (length series)"
        by auto
      from rolling_loop_window [OF w(2) r, of "replicate (length series) 0"]
      obtain zs where
        z: "rolling_loop series w [w .. int (length series) - 1] (replicate (length series) 0) = Inr zs"
        and l: "length zs = length series"
        and v: "\<forall>j < length series. zs ! j =
                  (if int j \<in> set [w .. int (length series) - 1] then window_value series w (int j)
                   else replicate (length series) 0 ! j)"
        by auto
      have "\<forall>j < length series. zs ! j =
              (if int j < w then 0
               else (let wd = take (nat w) (drop (j - nat w) series)
                     in if std_of wd = 0 then 0 else (series ! j - mean_of wd) / std_of wd))"
      proof (intro allI impI)
        fix j assume j: "j < length series"
        have n: "nat (int j - w) = j - nat w" using w by linarith
        show "zs ! j =
              (if int j < w then 0
               else (let wd = take (nat w) (drop (j - nat w) series)
                     in if std_of wd = 0 then 0 else (series ! j - mean_of wd) / std_of wd))"
          using v j n by (auto simp add: window_value_def Let_def)
      qed
      then show ?thesis using c z l w by auto
    qed
  qed
qed

theorem zscore_total_positive_window_witness:
  "(\<exists>w. Some (2::int) = Some w \<and> 1 \<le> w)
   \<and> calculate_zscore [1, 3, 5] (Some 2) = Inr [0, 0, 3]
   \<and> statistics_zscore 5 3 0 = Inr 0"
  using zscore_total_positive_window [of "Some 2" "[1, 3, 5]" 5 3 0]
  by (simp add: calculate_zscore_def upto_rec1 rolling_step_def py_slice_def slice_bound_def
      np_mean_def np_std_def div_checked_def py_get_def py_set_def py_index_def
      statistics_zscore_def)

subsection \<open>C10: closing a pair that was never opened\<close>

text \<open>
  Claim C10: for a pair name without an entry in the ledger, \<open>close_position\<close>
  returns \<open>None\<close> and leaves the ledger unchanged.
\<close>

theorem close_position_unknown_pair:
  "positions pm n = None \<Longrightarrow> close_position pm n x1 x2 now = (None, pm)"
  by (simp add: close_position_def)

theorem close_position_unknown_pair_witness:
  "positions PositionManager_init ''pair'' = None
   \<and> close_position PositionManager_init ''pair'' 110 55 0 = (None, PositionManager_init)"
  using close_position_unknown_pair [of PositionManager_init "''pair''" 110 55 0]
  by (simp add: PositionManager_init_def)

end
